theory Spec2Isabelle
  imports Complex_Main
begin

section \<open>JavaScript numbers\<close>

text \<open>
  The fields of a version descriptor are JavaScript numbers. A number is modelled as an
  exact rational, one of the two infinities, or \<open>NaN\<close>. The two zeros are
  identified: \<open>===\<close>, \<open><\<close>, \<open>>=\<close>, \<open>+ 1\<close> and \<open>toString\<close>, the
  only operations the version utilities apply, do not tell them apart. Arithmetic is
  exact: the rounding of IEEE doubles is left out, so the model and the program agree
  wherever every value is a double, in particular on the integers up to \<open>2^53\<close>.
\<close>

datatype jsnum = Num rat | PInf | NInf | NaN

text \<open>\<^verbatim>\<open>a === b\<close> on numbers: \<open>NaN\<close> equals nothing, itself included.\<close>

fun js_strict_eq :: "jsnum \<Rightarrow> jsnum \<Rightarrow> bool" where
  "js_strict_eq (Num a) (Num b) = (a = b)"
| "js_strict_eq PInf PInf = True"
| "js_strict_eq NInf NInf = True"
| "js_strict_eq _ _ = False"

text \<open>\<^verbatim>\<open>a < b\<close> on numbers: false as soon as one side is \<open>NaN\<close>.\<close>

fun js_lt :: "jsnum \<Rightarrow> jsnum \<Rightarrow> bool" where
  "js_lt NaN _ = False"
| "js_lt _ NaN = False"
| "js_lt (Num a) (Num b) = (a < b)"
| "js_lt _ NInf = False"
| "js_lt NInf _ = True"
| "js_lt PInf _ = False"
| "js_lt _ PInf = True"

text \<open>\<^verbatim>\<open>a >= b\<close> on numbers: false on \<open>NaN\<close>, otherwise the negation of \<open>a < b\<close>.\<close>

fun js_ge :: "jsnum \<Rightarrow> jsnum \<Rightarrow> bool" where
  "js_ge NaN _ = False"
| "js_ge _ NaN = False"
| "js_ge a b = (\<not> js_lt a b)"

text \<open>\<^verbatim>\<open>a + b\<close> on numbers.\<close>

fun js_add :: "jsnum \<Rightarrow> jsnum \<Rightarrow> jsnum" where
  "js_add NaN _ = NaN"
| "js_add _ NaN = NaN"
| "js_add (Num a) (Num b) = Num (a + b)"
| "js_add PInf NInf = NaN"
| "js_add NInf PInf = NaN"
| "js_add PInf _ = PInf"
| "js_add _ PInf = PInf"
| "js_add NInf _ = NInf"
| "js_add _ NInf = NInf"

section \<open>Version descriptors\<close>

record version =
  major :: jsnum
  minor :: jsnum
  patch :: jsnum
  build :: jsnum

text \<open>
  What a call can throw: the \<open>TypeError\<close> of reading a property of \<open>null\<close>, and the
  \<open>Error\<close> that \<open>updateVersionBuild\<close> throws itself when the build limit is reached.
\<close>

datatype js_error = TypeError | BuildLimitExceeded

text \<open>
  \<open>versionEquals\<close> reads \<open>versionA.major\<close> first: on a \<open>null\<close> first argument
  (\<open>None\<close>) that read throws. The second argument is always a descriptor where the
  function is called.
\<close>

definition versionEquals :: "version option \<Rightarrow> version \<Rightarrow> js_error + bool" where
  "versionEquals versionA versionB =
     (case versionA of
        None \<Rightarrow> Inl TypeError
      | Some a \<Rightarrow>
          Inr (js_strict_eq (major a) (major versionB)
               \<and> js_strict_eq (minor a) (minor versionB)
               \<and> js_strict_eq (patch a) (patch versionB)))"

text \<open>
  \<open>updateVersionBuild (currentVersion, newVersion, maxBuilds = 100)\<close>. The current
  version is \<open>None\<close> when the caller passes \<open>null\<close>; \<open>maxBuilds\<close> is \<open>None\<close> when the
  argument is left out, and the default applies. The condition of the \<open>if\<close> calls
  \<open>versionEquals\<close> first, and \<open>&&\<close> reads \<open>currentVersion.build\<close> only when it
  returned true.
\<close>

definition updateVersionBuild ::
  "version option \<Rightarrow> version \<Rightarrow> jsnum option \<Rightarrow> js_error + version" where
  "updateVersionBuild currentVersion newVersion maxBuildsArg =
     (let maxBuilds = (case maxBuildsArg of None \<Rightarrow> Num 100 | Some m \<Rightarrow> m) in
      case versionEquals currentVersion newVersion of
        Inl e \<Rightarrow> Inl e
      | Inr eq \<Rightarrow>
          (case currentVersion of
             None \<Rightarrow> Inl TypeError
           | Some cur \<Rightarrow>
               if eq \<and> js_lt (build newVersion) (build cur) then
                 (let newBuildNumber = js_add (build cur) (Num 1) in
                  if js_ge newBuildNumber maxBuilds then Inl BuildLimitExceeded
                  else Inr (newVersion\<lparr>build := newBuildNumber\<rparr>))
               else Inr newVersion))"

text \<open>The descriptor with the four given integers as fields.\<close>

definition mk_version :: "int \<Rightarrow> int \<Rightarrow> int \<Rightarrow> int \<Rightarrow> version" where
  "mk_version a b c d =
     \<lparr>major = Num (of_int a), minor = Num (of_int b), patch = Num (of_int c),
      build = Num (of_int d)\<rparr>"

section \<open>Strings and the built-in functions the utilities call\<close>

text \<open>
  A JavaScript string is a sequence of UTF-16 code units; the model's strings are lists
  of \<open>char\<close>, one \<open>char\<close> for each code unit below 256. The regular expression
  class \<^verbatim>\<open>\d\<close> matches the ten ASCII digits only.
\<close>

definition is_digit :: "char \<Rightarrow> bool" where
  "is_digit c = (48 \<le> (of_char c :: nat) \<and> (of_char c :: nat) \<le> 57)"

definition digit_val :: "char \<Rightarrow> nat" where
  "digit_val c = of_char c - 48"

definition digit_char :: "nat \<Rightarrow> char" where
  "digit_char d = char_of (48 + d)"

text \<open>The value of a string of decimal digits, and the decimal digits of a natural number.\<close>

definition dec_val :: "string \<Rightarrow> nat" where
  "dec_val s = foldl (\<lambda>acc c. 10 * acc + digit_val c) 0 s"

fun dec_str :: "nat \<Rightarrow> string" where
  "dec_str n = (if n < 10 then [digit_char n] else dec_str (n div 10) @ [digit_char (n mod 10)])"

declare dec_str.simps [simp del]

text \<open>
  \<^verbatim>\<open>s.search(/[^\d]/)\<close>: the index of the first character that is not a digit,
  and \<open>-1\<close> when there is none.
\<close>

fun search_non_digit :: "string \<Rightarrow> int" where
  "search_non_digit [] = - 1"
| "search_non_digit (c # cs) =
     (if \<not> is_digit c then 0
      else (let i = search_non_digit cs in if i < 0 then - 1 else i + 1))"

text \<open>\<^verbatim>\<open>s.substring(0, e)\<close> for an index \<open>e\<close> within the string.\<close>

definition substring0 :: "string \<Rightarrow> int \<Rightarrow> string" where
  "substring0 s e = take (nat e) s"

text \<open>
  \<^verbatim>\<open>s.split('.')\<close>: the pieces between the dots, empty pieces included; the empty
  string gives one empty piece.
\<close>

fun split_dot :: "string \<Rightarrow> string list" where
  "split_dot [] = [[]]"
| "split_dot (c # cs) =
     (if c = CHR ''.'' then [] # split_dot cs
      else (c # hd (split_dot cs)) # tl (split_dot cs))"

text \<open>
  \<^verbatim>\<open>parts[i] || d\<close>: an index past the end reads \<open>undefined\<close> and the empty string
  is falsy, so both give the default \<open>d\<close>; every other string is truthy.
\<close>

definition part_or :: "string list \<Rightarrow> nat \<Rightarrow> string \<Rightarrow> string" where
  "part_or parts i d = (if i < length parts \<and> parts ! i \<noteq> [] then parts ! i else d)"

subsection \<open>The coercion of a string to a number\<close>

text \<open>
  The unary \<^verbatim>\<open>+\<close> applied to a string is the language's \<open>StringToNumber\<close>: white
  space is stripped at both ends; the empty string is \<open>0\<close>; otherwise the text must be a
  whole \<open>StrNumericLiteral\<close> (a signed decimal literal with optional fraction and
  exponent, a signed \<open>Infinity\<close>, or an unsigned binary, octal or hexadecimal integer),
  and the result is \<open>NaN\<close> when it is not. Of the code units below 256, the white
  space and line terminators are 9 to 13, 32 and 160.
\<close>

definition is_ws :: "char \<Rightarrow> bool" where
  "is_ws c = ((of_char c :: nat) \<in> {9, 10, 11, 12, 13, 32, 160})"

definition strip_ws :: "string \<Rightarrow> string" where
  "strip_ws s = rev (dropWhile is_ws (rev (dropWhile is_ws s)))"

definition radix_digit :: "char \<Rightarrow> nat" where
  "radix_digit c =
     (let n = (of_char c :: nat) in
      if 48 \<le> n \<and> n \<le> 57 then n - 48
      else if 97 \<le> n \<and> n \<le> 102 then n - 87
      else if 65 \<le> n \<and> n \<le> 70 then n - 55
      else 16)"

definition radix_lit :: "nat \<Rightarrow> string \<Rightarrow> jsnum" where
  "radix_lit b ds =
     (if ds \<noteq> [] \<and> list_all (\<lambda>c. radix_digit c < b) ds
      then Num (of_nat (foldl (\<lambda>acc c. b * acc + radix_digit c) 0 ds))
      else NaN)"

definition scale10 :: "nat \<Rightarrow> int \<Rightarrow> rat" where
  "scale10 m e = (if 0 \<le> e then of_nat m * 10 ^ nat e else of_nat m / 10 ^ nat (- e))"

text \<open>
  The text after the mantissa: nothing (exponent \<open>0\<close>), or \<open>e\<close> or \<open>E\<close> and a signed
  run of digits; \<open>None\<close> when it is anything else.
\<close>

definition exponent_part :: "string \<Rightarrow> int option" where
  "exponent_part r =
     (case r of
        [] \<Rightarrow> Some 0
      | c # ds \<Rightarrow>
          if c = CHR ''e'' \<or> c = CHR ''E'' then
            (case ds of
               [] \<Rightarrow> None
             | s # ds' \<Rightarrow>
                 if s = CHR ''+'' then
                   (if ds' \<noteq> [] \<and> list_all is_digit ds' then Some (int (dec_val ds')) else None)
                 else if s = CHR ''-'' then
                   (if ds' \<noteq> [] \<and> list_all is_digit ds' then Some (- int (dec_val ds')) else None)
                 else if list_all is_digit ds then Some (int (dec_val ds)) else None)
          else None)"

definition unsigned_decimal :: "string \<Rightarrow> jsnum" where
  "unsigned_decimal s =
     (if s = ''Infinity'' then PInf
      else
        (let ip = takeWhile is_digit s;
             r1 = dropWhile is_digit s;
             dot = (r1 \<noteq> [] \<and> hd r1 = CHR ''.'');
             fp = (if dot then takeWhile is_digit (tl r1) else []);
             r2 = (if dot then dropWhile is_digit (tl r1) else r1)
         in if ip = [] \<and> fp = [] then NaN
            else (case exponent_part r2 of
                    None \<Rightarrow> NaN
                  | Some e \<Rightarrow> Num (scale10 (dec_val (ip @ fp)) (e - int (length fp))))))"

definition js_neg :: "jsnum \<Rightarrow> jsnum" where
  "js_neg x = (case x of Num q \<Rightarrow> Num (- q) | PInf \<Rightarrow> NInf | NInf \<Rightarrow> PInf | NaN \<Rightarrow> NaN)"

definition toNumber :: "string \<Rightarrow> jsnum" where
  "toNumber str =
     (case strip_ws str of
        [] \<Rightarrow> Num 0
      | c # cs \<Rightarrow>
          if c = CHR ''+'' then unsigned_decimal cs
          else if c = CHR ''-'' then js_neg (unsigned_decimal cs)
          else if c = CHR ''0'' \<and> cs \<noteq> [] \<and> hd cs \<in> {CHR ''x'', CHR ''X''}
            then radix_lit 16 (tl cs)
          else if c = CHR ''0'' \<and> cs \<noteq> [] \<and> hd cs \<in> {CHR ''o'', CHR ''O''}
            then radix_lit 8 (tl cs)
          else if c = CHR ''0'' \<and> cs \<noteq> [] \<and> hd cs \<in> {CHR ''b'', CHR ''B''}
            then radix_lit 2 (tl cs)
          else unsigned_decimal (c # cs))"

subsection \<open>The conversion of a number to a string\<close>

text \<open>
  \<^verbatim>\<open>x.toString()\<close> on a number: \<open>NaN\<close>, \<open>Infinity\<close>, \<open>-Infinity\<close>, and for an
  integer its decimal digits after a minus sign when it is negative. Integers are written
  in full: the exponent notation that the language uses from \<open>10^21\<close> on is left out
  with the rounding of doubles. The digits that the language prints for a number that is
  not an integer are those of a floating-point value and are not modelled: the result is
  \<open>None\<close> there.
\<close>

definition jsToString :: "jsnum \<Rightarrow> string option" where
  "jsToString x =
     (case x of
        NaN \<Rightarrow> Some ''NaN''
      | PInf \<Rightarrow> Some ''Infinity''
      | NInf \<Rightarrow> Some ''-Infinity''
      | Num q \<Rightarrow>
          if of_int \<lfloor>q\<rfloor> = q then
            (if q < 0 then Some (CHR ''-'' # dec_str (nat (- \<lfloor>q\<rfloor>)))
             else Some (dec_str (nat \<lfloor>q\<rfloor>)))
          else None)"

text \<open>
  \<^verbatim>\<open>s.padStart(maxLength, fillString)\<close>: the string itself when it is long enough
  or the filler is empty, otherwise the filler repeated and cut to the missing length,
  then the string.
\<close>

definition padStart :: "string \<Rightarrow> nat \<Rightarrow> string \<Rightarrow> string" where
  "padStart s maxLength fillString =
     (if maxLength \<le> length s \<or> fillString = [] then s
      else take (maxLength - length s)
             (concat (replicate (maxLength - length s) fillString)) @ s)"

section \<open>The version utilities\<close>

definition trimText :: "string \<Rightarrow> string" where
  "trimText s =
     (let indexOfString = search_non_digit s in
      if indexOfString > 0 then substring0 s indexOfString else s)"

definition versionStringToVersion :: "string \<Rightarrow> version" where
  "versionStringToVersion versionString =
     (let versionParts = split_dot versionString in
      \<lparr>major = toNumber (trimText (part_or versionParts 0 ''0'')),
       minor = toNumber (trimText (part_or versionParts 1 ''1'')),
       patch = toNumber (trimText (part_or versionParts 2 ''0'')),
       build = toNumber (trimText (part_or versionParts 3 ''1''))\<rparr>)"

text \<open>
  \<open>versionToVersionCode\<close>: each field through \<open>toString().padStart(2, 0)\<close> (the
  filler \<open>0\<close> is converted to the string \<open>0\<close>), the four strings joined by the
  template literal, and the result coerced to a number.
\<close>

definition versionToVersionCode :: "version \<Rightarrow> jsnum option" where
  "versionToVersionCode v =
     (case (jsToString (major v), jsToString (minor v), jsToString (patch v),
            jsToString (build v)) of
        (Some ma, Some mi, Some pa, Some bu) \<Rightarrow>
          Some (toNumber (padStart ma 2 ''0'' @ padStart mi 2 ''0''
                          @ padStart pa 2 ''0'' @ padStart bu 2 ''0''))
      | _ \<Rightarrow> None)"

text \<open>The four fields of a descriptor in order, to speak of a field by its position.\<close>

definition version_fields :: "version \<Rightarrow> jsnum list" where
  "version_fields v = [major v, minor v, patch v, build v]"

section \<open>The encoding as the specification words it\<close>

text \<open>
  The specification describes the version code without reference to the program: each
  of major, minor, patch and build is written as a decimal string, widened with zeros on
  the left to at least two digits and never shortened; the four strings are joined in
  that order and the result is read as a decimal integer.
\<close>

definition spec_pad2 :: "nat \<Rightarrow> string" where
  "spec_pad2 n = replicate (2 - length (dec_str n)) CHR ''0'' @ dec_str n"

definition spec_encode :: "nat \<Rightarrow> nat \<Rightarrow> nat \<Rightarrow> nat \<Rightarrow> nat" where
  "spec_encode a b c d = dec_val (spec_pad2 a @ spec_pad2 b @ spec_pad2 c @ spec_pad2 d)"

text \<open>The order of versions: major first, then minor, then patch, then build.\<close>

definition version_less :: "nat \<times> nat \<times> nat \<times> nat \<Rightarrow> nat \<times> nat \<times> nat \<times> nat \<Rightarrow> bool" where
  "version_less v w =
     (case (v, w) of
        ((a, b, c, d), (a', b', c', d')) \<Rightarrow>
          a < a' \<or> (a = a' \<and> (b < b' \<or> (b = b' \<and> (c < c' \<or> (c = c' \<and> d < d'))))))"

text \<open>The positional defaults of the parser, as numbers.\<close>

definition default_fields :: "jsnum list" where
  "default_fields = [Num 0, Num 1, Num 0, Num 1]"


section \<open>The build-increment decision\<close>

lemma js_ge_not_lt: "js_ge a b \<Longrightarrow> \<not> js_lt a b"
  by (cases a; cases b) simp_all


lemma updateVersionBuild_Some:
  "updateVersionBuild (Some cur) new mb =
     (if js_strict_eq (major cur) (major new) \<and> js_strict_eq (minor cur) (minor new)
         \<and> js_strict_eq (patch cur) (patch new) \<and> js_lt (build new) (build cur)
      then (if js_ge (js_add (build cur) (Num 1)) (case mb of None \<Rightarrow> Num 100 | Some m \<Rightarrow> m)
            then Inl BuildLimitExceeded
            else Inr (new\<lparr>build := js_add (build cur) (Num 1)\<rparr>))
      else Inr new)"
  by (simp add: updateVersionBuild_def versionEquals_def Let_def)

lemma mk_version_sel:
  "major (mk_version a b c d) = Num (of_int a)"
  "minor (mk_version a b c d) = Num (of_int b)"
  "patch (mk_version a b c d) = Num (of_int c)"
  "build (mk_version a b c d) = Num (of_int d)"
  by (simp_all add: mk_version_def)

lemma js_ge_add_one:
  assumes "js_lt r c" shows "js_ge (js_add c (Num 1)) r"
  using assms by (cases c; cases r) simp_all

lemma js_ge_refl: "x \<noteq> NaN \<Longrightarrow> js_ge x x"
  by (cases x) simp_all





text \<open>
  Claim C3. The claim is that a \<open>null\<close> current descriptor makes
  \<open>updateVersionBuild\<close> return the requested descriptor unchanged. The program does
  not: \<open>versionEquals\<close> reads \<open>major\<close> of the \<open>null\<close> value and the call ends
  in a \<open>TypeError\<close>, for every requested descriptor and every limit, so the first
  run with requested \<open>1.0.0.1\<close> returns no descriptor.
\<close>

theorem C3_null_current:
  "updateVersionBuild None requested maxBuilds = Inl TypeError
   \<and> updateVersionBuild None (mk_version 1 0 0 1) None \<noteq> Inr (mk_version 1 0 0 1)"
  by (simp add: updateVersionBuild_def versionEquals_def)

text \<open>
  Claim C4. With a current descriptor that is not \<open>null\<close>, when major, minor and
  patch agree and the requested build is at least the current build, or when one of
  major, minor and patch differs, \<open>updateVersionBuild\<close> returns the requested
  descriptor unchanged. Current \<open>1.2.3.5\<close> with requested \<open>1.2.3.7\<close> gives
  \<open>1.2.3.7\<close>, and with requested \<open>1.3.0.1\<close> gives \<open>1.3.0.1\<close>.
\<close>

theorem C4_unchanged:
  assumes "(js_strict_eq (major current) (major requested)
            \<and> js_strict_eq (minor current) (minor requested)
            \<and> js_strict_eq (patch current) (patch requested)
            \<and> js_ge (build requested) (build current))
           \<or> \<not> js_strict_eq (major current) (major requested)
           \<or> \<not> js_strict_eq (minor current) (minor requested)
           \<or> \<not> js_strict_eq (patch current) (patch requested)"
  shows "updateVersionBuild (Some current) requested maxBuilds = Inr requested
         \<and> updateVersionBuild (Some (mk_version 1 2 3 5)) (mk_version 1 2 3 7) None
             = Inr (mk_version 1 2 3 7)
         \<and> updateVersionBuild (Some (mk_version 1 2 3 5)) (mk_version 1 3 0 1) None
             = Inr (mk_version 1 3 0 1)"
proof -
  have "updateVersionBuild (Some current) requested maxBuilds = Inr requested"
    using assms js_ge_not_lt [of "build requested" "build current"]
    by (auto simp add: updateVersionBuild_Some)
  moreover have "updateVersionBuild (Some (mk_version 1 2 3 5)) (mk_version 1 2 3 7) None
             = Inr (mk_version 1 2 3 7)"
    by (simp add: updateVersionBuild_Some mk_version_def)
  moreover have "updateVersionBuild (Some (mk_version 1 2 3 5)) (mk_version 1 3 0 1) None
             = Inr (mk_version 1 3 0 1)"
    by (simp add: updateVersionBuild_Some mk_version_def)
  ultimately show ?thesis by blast
qed

text \<open>Both cases of C4 at limit \<open>3\<close>: an equal build, and a changed patch.\<close>

theorem C4_unchanged_witness:
  "updateVersionBuild (Some (mk_version 2 0 0 4)) (mk_version 2 0 0 4) (Some (Num 3))
     = Inr (mk_version 2 0 0 4)
   \<and> updateVersionBuild (Some (mk_version 2 0 0 4)) (mk_version 2 0 1 1) (Some (Num 3))
     = Inr (mk_version 2 0 1 1)"
  using C4_unchanged [of "mk_version 2 0 0 4" "mk_version 2 0 0 4" "Some (Num 3)"]
    C4_unchanged [of "mk_version 2 0 0 4" "mk_version 2 0 1 1" "Some (Num 3)"]
  by (simp add: mk_version_def)

text \<open>
  Claim C10. With a current descriptor that is not \<open>null\<close> and a requested
  descriptor whose fields are not \<open>NaN\<close>, a descriptor returned by
  \<open>updateVersionBuild\<close> has the major, minor and patch of the requested one, and a
  build at least the requested build.
\<close>

theorem C10_frame:
  assumes "major requested \<noteq> NaN" "minor requested \<noteq> NaN" "patch requested \<noteq> NaN"
    and "build requested \<noteq> NaN"
    and "updateVersionBuild (Some current) requested maxBuilds = Inr next"
  shows "major next = major requested \<and> minor next = minor requested
         \<and> patch next = patch requested \<and> js_ge (build next) (build requested)"
proof (cases "next = requested")
  case True
  with assms(4) show ?thesis by (simp add: js_ge_refl)
next
  case False
  with assms(5) have lt: "js_lt (build requested) (build current)"
    and nx: "next = requested\<lparr>build := js_add (build current) (Num 1)\<rparr>"
    by (auto simp add: updateVersionBuild_Some split: if_splits)
  from js_ge_add_one [OF lt] nx show ?thesis by simp
qed

text \<open>The hypotheses of C10 hold for the increment of \<open>1.2.3.5\<close> on request \<open>1.2.3.1\<close>.\<close>

theorem C10_frame_witness:
  "updateVersionBuild (Some (mk_version 1 2 3 5)) (mk_version 1 2 3 1) None
     = Inr (mk_version 1 2 3 6)
   \<and> major (mk_version 1 2 3 6) = major (mk_version 1 2 3 1)
   \<and> minor (mk_version 1 2 3 6) = minor (mk_version 1 2 3 1)
   \<and> patch (mk_version 1 2 3 6) = patch (mk_version 1 2 3 1)
   \<and> js_ge (build (mk_version 1 2 3 6)) (build (mk_version 1 2 3 1))"
proof -
  have run: "updateVersionBuild (Some (mk_version 1 2 3 5)) (mk_version 1 2 3 1) None
     = Inr (mk_version 1 2 3 6)"
    by (simp add: updateVersionBuild_Some mk_version_def)
  have "major (mk_version 1 2 3 1) \<noteq> NaN" "minor (mk_version 1 2 3 1) \<noteq> NaN"
    "patch (mk_version 1 2 3 1) \<noteq> NaN" "build (mk_version 1 2 3 1) \<noteq> NaN"
    by (simp_all add: mk_version_def)
  from C10_frame [OF this run] run show ?thesis by blast
qed

section \<open>Digits and the coercion of digit strings\<close>

lemma is_digit_digit_char: "d < 10 \<Longrightarrow> is_digit (digit_char d)"
  by (simp add: is_digit_def digit_char_def)

lemma digit_val_digit_char: "d < 10 \<Longrightarrow> digit_val (digit_char d) = d"
  by (simp add: digit_val_def digit_char_def)

lemma digit_not_special:
  "is_digit c \<Longrightarrow> \<not> is_ws c \<and> c \<noteq> CHR ''+'' \<and> c \<noteq> CHR ''-'' \<and> c \<noteq> CHR ''.''
     \<and> c \<noteq> CHR ''I'' \<and> c \<notin> {CHR ''x'', CHR ''X''} \<and> c \<notin> {CHR ''o'', CHR ''O''}
     \<and> c \<notin> {CHR ''b'', CHR ''B''}"
  by (auto simp: is_digit_def is_ws_def)

lemma foldl_dec:
  assumes f: "f = (\<lambda>acc c. 10 * acc + digit_val c)"
  shows "foldl f a s = a * 10 ^ length s + foldl f (0::nat) s"
proof (induction s arbitrary: a)
  case Nil
  show ?case by simp
next
  case (Cons c s)
  have "foldl f a (c # s) = f a c * 10 ^ length s + foldl f 0 s"
    using Cons.IH [of "f a c"] by simp
  moreover have "foldl f 0 (c # s) = f 0 c * 10 ^ length s + foldl f 0 s"
    using Cons.IH [of "f 0 c"] by simp
  moreover have "f a c = 10 * a + f 0 c"
    by (simp add: f)
  ultimately show ?case
    by (simp add: algebra_simps)
qed

lemma dec_val_append: "dec_val (a @ b) = dec_val a * 10 ^ length b + dec_val b"
  unfolding dec_val_def foldl_append by (rule foldl_dec) simp

lemma dec_val_Nil: "dec_val [] = 0"
  by (simp add: dec_val_def)

lemma dec_val_single: "dec_val [c] = digit_val c"
  by (simp add: dec_val_def)

lemma dec_str_digits: "list_all is_digit (dec_str n)"
proof (induction n rule: dec_str.induct)
  case (1 n)
  show ?case
  proof (cases "n < 10")
    case True
    then show ?thesis by (simp add: dec_str.simps [of n] is_digit_digit_char)
  next
    case False
    with 1 show ?thesis by (simp add: dec_str.simps [of n] is_digit_digit_char)
  qed
qed

lemma dec_str_nonempty: "dec_str n \<noteq> []"
  by (subst dec_str.simps) simp

lemma dec_val_dec_str: "dec_val (dec_str n) = n"
proof (induction n rule: dec_str.induct)
  case (1 n)
  show ?case
  proof (cases "n < 10")
    case True
    then show ?thesis by (simp add: dec_str.simps [of n] dec_val_single digit_val_digit_char)
  next
    case False
    with 1 show ?thesis
      by (simp add: dec_str.simps [of n] dec_val_append dec_val_single digit_val_digit_char)
  qed
qed

lemma strip_ws_digits:
  assumes "s \<noteq> []" "list_all is_digit s"
  shows "strip_ws s = s"
proof -
  from assms have h: "\<not> is_ws (hd s)"
    by (cases s) (simp_all add: digit_not_special)
  from assms have l: "\<not> is_ws (last s)"
    by (metis digit_not_special last_in_set list_all_iff)
  from assms(1) h have 1: "dropWhile is_ws s = s"
    by (cases s) simp_all
  from assms(1) l have 2: "dropWhile is_ws (rev s) = rev s"
    by (cases "rev s") (simp_all add: hd_rev [symmetric])
  show ?thesis by (simp add: strip_ws_def 1 2)
qed

lemma unsigned_decimal_digits:
  assumes "s \<noteq> []" "list_all is_digit s"
  shows "unsigned_decimal s = Num (of_nat (dec_val s))"
proof -
  from assms have "is_digit (hd s)" by (cases s) simp_all
  then have "hd s \<noteq> CHR ''I''" by (simp add: digit_not_special)
  then have ni: "s \<noteq> ''Infinity''" by auto
  from assms(2) have tw: "takeWhile is_digit s = s" and dw: "dropWhile is_digit s = []"
    by (simp_all add: list_all_iff)
  show ?thesis
    using assms(1) ni by (simp add: unsigned_decimal_def tw dw exponent_part_def scale10_def)
qed

lemma toNumber_digits:
  assumes "s \<noteq> []" "list_all is_digit s"
  shows "toNumber s = Num (of_nat (dec_val s))"
proof -
  from assms obtain c cs where s: "s = c # cs" by (cases s) auto
  with assms have c: "is_digit c" by simp
  have st: "strip_ws (c # cs) = c # cs"
    using strip_ws_digits [OF assms] s by simp
  have sign: "c \<noteq> CHR ''+''" "c \<noteq> CHR ''-''"
    using digit_not_special [OF c] by simp_all
  have radix: "cs \<noteq> [] \<Longrightarrow> hd cs \<notin> {CHR ''x'', CHR ''X''} \<and> hd cs \<notin> {CHR ''o'', CHR ''O''}
      \<and> hd cs \<notin> {CHR ''b'', CHR ''B''}"
  proof -
    assume "cs \<noteq> []"
    with assms(2) s have "is_digit (hd cs)" by (cases cs) simp_all
    from digit_not_special [OF this] show ?thesis by blast
  qed
  have "toNumber (c # cs) = unsigned_decimal (c # cs)"
    unfolding toNumber_def st using sign radix by (cases "cs = []") simp_all
  then show ?thesis using unsigned_decimal_digits [OF assms] s by simp
qed

section \<open>The version code\<close>

lemma jsToString_nat: "jsToString (Num (of_nat n)) = Some (dec_str n)"
  by (simp add: jsToString_def)

lemma mk_version_nat:
  "mk_version (int a) (int b) (int c) (int d)
     = \<lparr>major = Num (of_nat a), minor = Num (of_nat b), patch = Num (of_nat c),
        build = Num (of_nat d)\<rparr>"
  by (simp add: mk_version_def)

lemma padStart_zero: "padStart s n ''0'' = replicate (n - length s) CHR ''0'' @ s"
proof -
  have "concat (replicate k ''0'') = replicate k CHR ''0''" for k
    by (induction k) simp_all
  then show ?thesis by (simp add: padStart_def)
qed

lemma padStart_dec_str: "padStart (dec_str n) 2 ''0'' = spec_pad2 n"
  by (simp add: padStart_zero spec_pad2_def)

lemma is_digit_zero: "is_digit CHR ''0''"
  by (simp add: is_digit_def)

lemma spec_pad2_digits: "list_all is_digit (spec_pad2 n)"
  using dec_str_digits [of n] by (auto simp add: spec_pad2_def is_digit_zero list_all_iff)

lemma spec_pad2_nonempty: "spec_pad2 n \<noteq> []"
  by (simp add: spec_pad2_def dec_str_nonempty)

lemma versionToVersionCode_nat:
  "versionToVersionCode (mk_version (int a) (int b) (int c) (int d))
     = Some (Num (of_nat (spec_encode a b c d)))"
proof -
  let ?s = "spec_pad2 a @ spec_pad2 b @ spec_pad2 c @ spec_pad2 d"
  have "versionToVersionCode (mk_version (int a) (int b) (int c) (int d)) = Some (toNumber ?s)"
    by (simp add: versionToVersionCode_def mk_version_nat jsToString_nat padStart_dec_str)
  moreover have "?s \<noteq> []" by (simp add: spec_pad2_nonempty)
  moreover have "list_all is_digit ?s" by (simp add: spec_pad2_digits)
  ultimately show ?thesis by (simp add: toNumber_digits spec_encode_def)
qed

lemma dec_val_zeros: "dec_val (replicate k CHR ''0'' @ s) = dec_val s"
proof -
  have "dec_val (replicate k CHR ''0'') = 0"
    by (induction k) (simp_all add: dec_val_def digit_val_def)
  then show ?thesis by (simp add: dec_val_append)
qed

lemma dec_val_spec_pad2: "dec_val (spec_pad2 n) = n"
  by (simp add: spec_pad2_def dec_val_zeros dec_val_dec_str)

lemma length_dec_str_small:
  assumes "n < 100"
  shows "length (dec_str n) \<le> 2"
proof (cases "n < 10")
  case True
  then show ?thesis by (simp add: dec_str.simps [of n])
next
  case False
  from assms have "n div 10 < 10" by simp
  then have "length (dec_str (n div 10)) = 1" by (simp add: dec_str.simps [of "n div 10"])
  with False show ?thesis by (simp add: dec_str.simps [of n])
qed

lemma length_spec_pad2: "n < 100 \<Longrightarrow> length (spec_pad2 n) = 2"
  using length_dec_str_small [of n] by (simp add: spec_pad2_def)

lemma spec_encode_small:
  assumes "b < 100" "c < 100" "d < 100"
  shows "spec_encode a b c d = a * 1000000 + b * 10000 + c * 100 + d"
  using assms by (simp add: spec_encode_def dec_val_append dec_val_spec_pad2 length_spec_pad2)

lemma spec_encode_example: "spec_encode 1 2 3 4 = 1020304"
  by (simp add: spec_encode_small)

lemma step100_eq:
  fixes p q u v :: nat
  assumes "u < 100" "v < 100"
  shows "(p * 100 + u = q * 100 + v) = (p = q \<and> u = v)"
proof
  assume eq: "p * 100 + u = q * 100 + v"
  then have "(p * 100 + u) div 100 = (q * 100 + v) div 100" by simp
  with assms have "p = q" by simp
  with eq show "p = q \<and> u = v" by simp
qed simp

lemma step100_less:
  fixes p q u v :: nat
  shows "u < 100 \<Longrightarrow> v < 100 \<Longrightarrow> (p * 100 + u < q * 100 + v) = (p < q \<or> (p = q \<and> u < v))"
  by arith

lemma spec_encode_nested:
  assumes "b < 100" "c < 100" "d < 100"
  shows "spec_encode a b c d = ((a * 100 + b) * 100 + c) * 100 + d"
  using assms by (simp add: spec_encode_small)

lemma code_eq_iff:
  fixes a b c d a' b' c' d' :: nat
  assumes "b < 100" "c < 100" "d < 100" "b' < 100" "c' < 100" "d' < 100"
  shows "((a * 100 + b) * 100 + c) * 100 + d = ((a' * 100 + b') * 100 + c') * 100 + d'
           \<longleftrightarrow> (a, b, c, d) = (a', b', c', d')"
  using assms by (simp only: step100_eq) simp

lemma code_less_iff:
  fixes a b c d a' b' c' d' :: nat
  assumes "b < 100" "c < 100" "d < 100" "b' < 100" "c' < 100" "d' < 100"
  shows "((a * 100 + b) * 100 + c) * 100 + d < ((a' * 100 + b') * 100 + c') * 100 + d'
           \<longleftrightarrow> version_less (a, b, c, d) (a', b', c', d')"
  using assms by (simp only: step100_less step100_eq version_less_def) auto


text \<open>
  Claim C5. On descriptors whose four fields are integers from \<open>0\<close> to \<open>99\<close>,
  \<open>versionToVersionCode\<close> returns an integer, two descriptors get the same code only
  when they are the same, and one code is below the other exactly when the first
  descriptor comes before the second in the order by major, then minor, then patch, then
  build.
\<close>

theorem C5_injective_ordered:
  assumes "a \<le> 99" "b \<le> 99" "c \<le> 99" "d \<le> 99" "a' \<le> 99" "b' \<le> 99" "c' \<le> 99" "d' \<le> 99"
  shows "\<exists>x y. versionToVersionCode (mk_version (int a) (int b) (int c) (int d)) = Some (Num (of_nat x))
           \<and> versionToVersionCode (mk_version (int a') (int b') (int c') (int d')) = Some (Num (of_nat y))
           \<and> (x = y \<longleftrightarrow> (a, b, c, d) = (a', b', c', d'))
           \<and> (js_lt (Num (of_nat x)) (Num (of_nat y)) \<longleftrightarrow> version_less (a, b, c, d) (a', b', c', d'))"
proof -
  let ?x = "((a * 100 + b) * 100 + c) * 100 + d"
  let ?y = "((a' * 100 + b') * 100 + c') * 100 + d'"
  from assms have small: "b < 100" "c < 100" "d < 100" "b' < 100" "c' < 100" "d' < 100"
    by simp_all
  have x: "versionToVersionCode (mk_version (int a) (int b) (int c) (int d)) = Some (Num (of_nat ?x))"
    using small by (simp only: versionToVersionCode_nat spec_encode_nested)
  have y: "versionToVersionCode (mk_version (int a') (int b') (int c') (int d')) = Some (Num (of_nat ?y))"
    using small by (simp only: versionToVersionCode_nat spec_encode_nested)
  have e: "?x = ?y \<longleftrightarrow> (a, b, c, d) = (a', b', c', d')"
    by (rule code_eq_iff [OF small])
  have l: "js_lt (Num (of_nat ?x)) (Num (of_nat ?y)) \<longleftrightarrow> version_less (a, b, c, d) (a', b', c', d')"
    using code_less_iff [OF small] by (simp only: js_lt.simps of_nat_less_iff)
  from x y e l show ?thesis by blast
qed

text \<open>The hypotheses of C5 hold for \<open>1.2.3.99\<close> and \<open>1.2.4.0\<close>.\<close>

theorem C5_injective_ordered_witness:
  "\<exists>x y. versionToVersionCode (mk_version 1 2 3 99) = Some (Num (of_nat x))
           \<and> versionToVersionCode (mk_version 1 2 4 0) = Some (Num (of_nat y))
           \<and> x \<noteq> y \<and> js_lt (Num (of_nat x)) (Num (of_nat y))
           \<and> version_less (1, 2, 3, 99) (1, 2, 4, 0)"
proof -
  have v: "version_less (1, 2, 3, 99) (1, 2, 4, 0)"
    by (simp add: version_less_def)
  from C5_injective_ordered [of 1 2 3 99 1 2 4 0] v show ?thesis
    by simp
qed

section \<open>The parser\<close>

lemma search_non_digit_eq:
  "search_non_digit s
     = (if list_all is_digit s then - 1 else int (length (takeWhile is_digit s)))"
  by (induction s) (simp_all add: Let_def)

lemma trimText_all_digits: "list_all is_digit s \<Longrightarrow> trimText s = s"
  by (simp add: trimText_def search_non_digit_eq)






lemma version_fields_nth:
  assumes "i < 4"
  shows "version_fields (versionStringToVersion s) ! i
           = toNumber (trimText (part_or (split_dot s) i ([''0'', ''1'', ''0'', ''1''] ! i)))"
proof -
  from assms have "i = 0 \<or> i = 1 \<or> i = 2 \<or> i = 3" by arith
  then show ?thesis
    by (auto simp add: version_fields_def versionStringToVersion_def Let_def)
qed

lemma toNumber_zero: "toNumber ''0'' = Num 0"
  by (simp add: toNumber_digits is_digit_def dec_val_def digit_val_def)

lemma toNumber_one: "toNumber ''1'' = Num 1"
  by (simp add: toNumber_digits is_digit_def dec_val_def digit_val_def)

lemma default_field:
  assumes "i < 4"
  shows "toNumber (trimText ([''0'', ''1'', ''0'', ''1''] ! i)) = default_fields ! i"
proof -
  from assms have "i = 0 \<or> i = 1 \<or> i = 2 \<or> i = 3" by arith
  moreover have "trimText ''0'' = ''0''" "trimText ''1'' = ''1''"
    by (simp_all add: trimText_all_digits is_digit_def)
  ultimately show ?thesis
    by (auto simp add: default_fields_def toNumber_zero toNumber_one)
qed


lemma parse_2_3: "versionStringToVersion ''2.3'' = mk_version 2 3 0 1"
  by code_simp

lemma parse_empty: "versionStringToVersion '''' = mk_version 0 1 0 1"
  by code_simp


lemma parse_full: "versionStringToVersion ''2.3.4.5'' = mk_version 2 3 4 5"
  by code_simp



text \<open>
  Claim C9. Where the version string has no token at one of the four positions, or an
  empty one, \<open>versionStringToVersion\<close> gives that field its positional default:
  major \<open>0\<close>, minor \<open>1\<close>, patch \<open>0\<close>, build \<open>1\<close>. This holds for every
  version string, those of fewer than four tokens included: the string \<open>2.3\<close> parses
  to \<open>2.3.0.1\<close> and the empty string to \<open>0.1.0.1\<close>.
\<close>

theorem C9_defaults:
  assumes "i < 4"
    and "length (split_dot s) \<le> i \<or> split_dot s ! i = []"
  shows "version_fields (versionStringToVersion s) ! i = default_fields ! i
         \<and> versionStringToVersion ''2.3'' = mk_version 2 3 0 1
         \<and> versionStringToVersion '''' = mk_version 0 1 0 1"
proof -
  from assms(2) have "part_or (split_dot s) i ([''0'', ''1'', ''0'', ''1''] ! i)
      = [''0'', ''1'', ''0'', ''1''] ! i"
    by (auto simp add: part_or_def)
  then have "version_fields (versionStringToVersion s) ! i = default_fields ! i"
    using assms(1) by (simp add: version_fields_nth default_field)
  then show ?thesis by (simp add: parse_2_3 parse_empty)
qed

text \<open>
  The hypotheses of C9 hold for the absent patch of \<open>2.3\<close> and for the empty minor
  of \<open>7..5\<close>.
\<close>

theorem C9_defaults_witness:
  "length (split_dot ''2.3'') \<le> 2
   \<and> version_fields (versionStringToVersion ''2.3'') ! 2 = Num 0
   \<and> split_dot ''7..5'' ! 1 = []
   \<and> version_fields (versionStringToVersion ''7..5'') ! 1 = Num 1"
proof -
  have a: "length (split_dot ''2.3'') \<le> 2" by simp
  have b: "split_dot ''7..5'' ! 1 = []" by simp
  have i2: "(2::nat) < 4" and i1: "(1::nat) < 4" by simp_all
  have d2: "default_fields ! 2 = Num 0" and d1: "default_fields ! 1 = Num 1"
    by (simp_all add: default_fields_def)
  from a have "length (split_dot ''2.3'') \<le> 2 \<or> split_dot ''2.3'' ! 2 = []" ..
  from C9_defaults [OF i2 this, THEN conjunct1] d2
  have x: "version_fields (versionStringToVersion ''2.3'') ! 2 = Num 0"
    by (simp only:)
  from b have "length (split_dot ''7..5'') \<le> 1 \<or> split_dot ''7..5'' ! 1 = []" ..
  from C9_defaults [OF i1 this, THEN conjunct1] d1
  have y: "version_fields (versionStringToVersion ''7..5'') ! 1 = Num 1"
    by (simp only:)
  from a x b y show ?thesis by blast
qed






end
